theory Spec2Isabelle
  imports Complex_Main
begin

section \<open>Numbers\<close>

text \<open>
  Every TypeScript \<open>number\<close> of the engine is modelled as an exact \<open>real\<close>: the
  arithmetic of the source is kept operation by operation, without the rounding error of
  binary floating point.  The values \<open>NaN\<close> and \<open>Infinity\<close> appear where a function is
  given the type \<open>JSNumber\<close> below; elsewhere a division by zero is outside the model,
  and the text of the function says so.  Quantities that the source only ever uses as
  loop bounds, array indices or integer exponents are \<open>int\<close> or \<open>nat\<close>.

  \<open>Math.round\<close> rounds to the nearest integer, a half going up.
\<close>

definition Math_round :: "real \<Rightarrow> real" where
  "Math_round x = of_int \<lfloor>x + 1 / 2\<rfloor>"

text \<open>The idiom \<open>a || b\<close> on numbers: \<open>b\<close> replaces a missing or zero \<open>a\<close>.\<close>

definition or_default :: "real option \<Rightarrow> real \<Rightarrow> real" where
  "or_default a b = (case a of None \<Rightarrow> b | Some v \<Rightarrow> if v = 0 then b else v)"

text \<open>
  Where the source can produce a value that is not a finite number (\<open>parseFloat\<close> of
  text, \<open>Math.min\<close> of nothing), the result is a \<open>JSNumber\<close>; a number beyond the
  range of a double, which the language turns into an infinity, stays finite here.
\<close>

datatype JSNumber = NaN | PosInfinity | NegInfinity | Finite real







section \<open>Objects as lookup tables\<close>


section \<open>Types (types.ts)\<close>

datatype FilingStatus = Single | MFJ | MFS

record IDRPlanParams =
  name :: string
  discretionaryIncomePercent :: real
  povertyLineMultiplier :: real
  forgivenessYears :: int
  interestSubsidy :: bool
  capsPaymentAt10YearStandard :: bool
  undergraduateRate :: "real option"

record TaxBracket =
  threshold :: real
  rate :: real

record YearlyLoanState =
  year :: real
  startingBalance :: real
  interestAccrued :: real
  paymentsMade :: real
  endingBalance :: real
  interestSubsidized :: real
  cumulativePayments :: real

record FilingScenario =
  totalTax :: real
  loanPayment :: real
  netAnnualCost :: real

record FilingComparison =
  mfj :: FilingScenario
  mfs :: FilingScenario
  recommendation :: FilingStatus
  annualSavings :: real

section \<open>Reference data (constants.ts)\<close>

definition POVERTY_LINE_BASE :: real where
  "POVERTY_LINE_BASE = 15060"

definition POVERTY_LINE_PER_PERSON :: real where
  "POVERTY_LINE_PER_PERSON = 5380"

definition getPovertyLine :: "real \<Rightarrow> real" where
  "getPovertyLine familySize =
     POVERTY_LINE_BASE + max 0 (familySize - 1) * POVERTY_LINE_PER_PERSON"

definition SAVE_plan :: IDRPlanParams where
  "SAVE_plan = \<lparr> name = ''SAVE (Saving on a Valuable Education)'',
     discretionaryIncomePercent = 0.10, povertyLineMultiplier = 2.25,
     forgivenessYears = 25, interestSubsidy = True,
     capsPaymentAt10YearStandard = False, undergraduateRate = Some 0.05 \<rparr>"

definition PAYE_plan :: IDRPlanParams where
  "PAYE_plan = \<lparr> name = ''PAYE (Pay As You Earn)'',
     discretionaryIncomePercent = 0.10, povertyLineMultiplier = 1.50,
     forgivenessYears = 20, interestSubsidy = False,
     capsPaymentAt10YearStandard = True, undergraduateRate = None \<rparr>"

definition IBR_NEW_plan :: IDRPlanParams where
  "IBR_NEW_plan = \<lparr> name = ''IBR (New Borrowers after 2014)'',
     discretionaryIncomePercent = 0.10, povertyLineMultiplier = 1.50,
     forgivenessYears = 20, interestSubsidy = False,
     capsPaymentAt10YearStandard = True, undergraduateRate = None \<rparr>"

definition IBR_OLD_plan :: IDRPlanParams where
  "IBR_OLD_plan = \<lparr> name = ''IBR (Borrowers before 2014)'',
     discretionaryIncomePercent = 0.15, povertyLineMultiplier = 1.50,
     forgivenessYears = 25, interestSubsidy = False,
     capsPaymentAt10YearStandard = True, undergraduateRate = None \<rparr>"

definition ICR_plan :: IDRPlanParams where
  "ICR_plan = \<lparr> name = ''ICR (Income-Contingent Repayment)'',
     discretionaryIncomePercent = 0.20, povertyLineMultiplier = 1.00,
     forgivenessYears = 25, interestSubsidy = False,
     capsPaymentAt10YearStandard = False, undergraduateRate = None \<rparr>"

definition IDR_PLANS_table :: "(string \<times> IDRPlanParams) list" where
  "IDR_PLANS_table =
     [(''SAVE'', SAVE_plan), (''PAYE'', PAYE_plan), (''IBR_NEW'', IBR_NEW_plan),
      (''IBR_OLD'', IBR_OLD_plan), (''ICR'', ICR_plan)]"

definition IDR_PLANS :: "string \<rightharpoonup> IDRPlanParams" where
  "IDR_PLANS = map_of IDR_PLANS_table"

definition FEDERAL_BRACKETS_SINGLE :: "TaxBracket list" where
  "FEDERAL_BRACKETS_SINGLE =
     [\<lparr> threshold = 0, rate = 0.10 \<rparr>,
      \<lparr> threshold = 11600, rate = 0.12 \<rparr>,
      \<lparr> threshold = 47150, rate = 0.22 \<rparr>,
      \<lparr> threshold = 100525, rate = 0.24 \<rparr>,
      \<lparr> threshold = 191950, rate = 0.32 \<rparr>,
      \<lparr> threshold = 243725, rate = 0.35 \<rparr>,
      \<lparr> threshold = 609350, rate = 0.37 \<rparr>]"

definition FEDERAL_BRACKETS_MFJ :: "TaxBracket list" where
  "FEDERAL_BRACKETS_MFJ =
     [\<lparr> threshold = 0, rate = 0.10 \<rparr>,
      \<lparr> threshold = 23200, rate = 0.12 \<rparr>,
      \<lparr> threshold = 94300, rate = 0.22 \<rparr>,
      \<lparr> threshold = 201050, rate = 0.24 \<rparr>,
      \<lparr> threshold = 383900, rate = 0.32 \<rparr>,
      \<lparr> threshold = 487450, rate = 0.35 \<rparr>,
      \<lparr> threshold = 731200, rate = 0.37 \<rparr>]"

definition FEDERAL_BRACKETS_MFS :: "TaxBracket list" where
  "FEDERAL_BRACKETS_MFS =
     [\<lparr> threshold = 0, rate = 0.10 \<rparr>,
      \<lparr> threshold = 11600, rate = 0.12 \<rparr>,
      \<lparr> threshold = 47150, rate = 0.22 \<rparr>,
      \<lparr> threshold = 100525, rate = 0.24 \<rparr>,
      \<lparr> threshold = 191950, rate = 0.32 \<rparr>,
      \<lparr> threshold = 243725, rate = 0.35 \<rparr>,
      \<lparr> threshold = 365600, rate = 0.37 \<rparr>]"

definition STATE_TAX_RATES_table :: "(string \<times> real) list" where
  "STATE_TAX_RATES_table =
     [(''AL'', 0.05), (''AK'', 0), (''AZ'', 0.025), (''AR'', 0.047), (''CA'', 0.133),
      (''CO'', 0.044), (''CT'', 0.0699), (''DE'', 0.066), (''FL'', 0), (''GA'', 0.0549),
      (''HI'', 0.11), (''ID'', 0.058), (''IL'', 0.0495), (''IN'', 0.0315), (''IA'', 0.06),
      (''KS'', 0.057), (''KY'', 0.04), (''LA'', 0.0425), (''ME'', 0.0715), (''MD'', 0.0575),
      (''MA'', 0.09), (''MI'', 0.0425), (''MN'', 0.0985), (''MS'', 0.05), (''MO'', 0.048),
      (''MT'', 0.059), (''NE'', 0.0584), (''NV'', 0), (''NH'', 0.05), (''NJ'', 0.1075),
      (''NM'', 0.059), (''NY'', 0.109), (''NC'', 0.0475), (''ND'', 0.0225), (''OH'', 0.035),
      (''OK'', 0.0475), (''OR'', 0.099), (''PA'', 0.0307), (''RI'', 0.0599), (''SC'', 0.064),
      (''SD'', 0), (''TN'', 0), (''TX'', 0), (''UT'', 0.0465), (''VT'', 0.0875),
      (''VA'', 0.0575), (''WA'', 0), (''WV'', 0.055), (''WI'', 0.0765), (''WY'', 0),
      (''DC'', 0.105)]"

text \<open>
  The listed states.  A state named like an inherited property (see
  \<open>Object_prototype_keys\<close>) is not a key of this map, whereas the source finds the
  inherited property there.
\<close>

definition STATE_TAX_RATES :: "string \<rightharpoonup> real" where
  "STATE_TAX_RATES = map_of STATE_TAX_RATES_table"

section \<open>Payment calculators (calculations.ts)\<close>

definition calculateIDRPayment ::
  "IDRPlanParams \<Rightarrow> real \<Rightarrow> real \<Rightarrow> real \<Rightarrow> FilingStatus \<Rightarrow> real" where
  "calculateIDRPayment plan agi familySize spouseAgi filingStatus =
     (let incomeForCalc = (if filingStatus = MFS then agi else agi + spouseAgi);
          povertyLine = getPovertyLine familySize;
          discretionaryIncome =
            max 0 (incomeForCalc - povertyLine * povertyLineMultiplier plan);
          annualPayment = discretionaryIncome * discretionaryIncomePercent plan
      in max 0 (Math_round (annualPayment / 12)))"

text \<open>
  The 10-year standard payment.  \<open>Math.pow\<close> is only applied to the whole exponent 120.
  A division by zero (\<open>(1 + monthlyRate)^120 = 1\<close> with a rate that is not zero, which
  needs \<open>interestRate = -24\<close>) yields \<open>Infinity\<close> or \<open>NaN\<close> in the source and lies
  outside this model.
\<close>

definition calculate10YearStandardPayment :: "real \<Rightarrow> real \<Rightarrow> real" where
  "calculate10YearStandardPayment balance interestRate =
     (let monthlyRate = interestRate / 12;
          numPayments = (120::nat)
      in if monthlyRate = 0 then Math_round (balance / real numPayments)
         else Math_round (balance * (monthlyRate * (1 + monthlyRate) ^ numPayments)
                          / ((1 + monthlyRate) ^ numPayments - 1)))"

definition getEffectiveIDRPayment :: "IDRPlanParams \<Rightarrow> real \<Rightarrow> real \<Rightarrow> real \<Rightarrow> real" where
  "getEffectiveIDRPayment plan calculatedPayment balance interestRate =
     (if capsPaymentAt10YearStandard plan
      then min calculatedPayment (calculate10YearStandardPayment balance interestRate)
      else calculatedPayment)"

section \<open>Loan balance projection (calculations.ts)\<close>

text \<open>
  One month of the inner loop, on the triple of the running \<open>balance\<close>,
  \<open>interestAccrued\<close> and \<open>interestSubsidized\<close>.
\<close>

definition monthStep ::
  "IDRPlanParams \<Rightarrow> real \<Rightarrow> real \<Rightarrow> real \<times> real \<times> real \<Rightarrow> real \<times> real \<times> real" where
  "monthStep plan interestRate monthlyPayment st =
     (case st of (balance, accrued, subsidized) \<Rightarrow>
        (let monthlyInterest = balance * (interestRate / 12);
             accrued' = accrued + monthlyInterest
         in if interestSubsidy plan \<and> monthlyPayment < monthlyInterest
            then (balance, accrued', subsidized + (monthlyInterest - monthlyPayment))
            else (balance + monthlyInterest - monthlyPayment, accrued', subsidized)))"

text \<open>The twelve months of one year, started with both interest counters at zero.\<close>

definition simulateYear ::
  "IDRPlanParams \<Rightarrow> real \<Rightarrow> real \<Rightarrow> real \<Rightarrow> real \<times> real \<times> real" where
  "simulateYear plan interestRate annualPayment balance =
     ((monthStep plan interestRate (annualPayment / 12)) ^^ 12) (balance, 0, 0)"

text \<open>
  The loop over the years: \<open>yr\<close> is the loop index, \<open>balance\<close> and \<open>cum\<close> are the
  running balance and cumulative payments.  The \<open>break\<close> tests the balance after the
  floor at zero and before any rounding; the snapshot stores rounded figures.
\<close>

fun projectLoop ::
  "IDRPlanParams \<Rightarrow> real \<Rightarrow> real list \<Rightarrow> nat \<Rightarrow> real \<Rightarrow> real \<Rightarrow> YearlyLoanState list" where
  "projectLoop plan interestRate [] yr balance cum = []"
| "projectLoop plan interestRate (annualPayment # rest) yr balance cum =
     (case simulateYear plan interestRate annualPayment balance of
        (b, interestAccrued', interestSubsidized') \<Rightarrow>
          (let balance' = max 0 b;
               cum' = cum + annualPayment;
               st = \<lparr> year = real yr + 1,
                      startingBalance = Math_round balance,
                      interestAccrued = Math_round interestAccrued',
                      paymentsMade = Math_round annualPayment,
                      endingBalance = Math_round balance',
                      interestSubsidized = Math_round interestSubsidized',
                      cumulativePayments = Math_round cum' \<rparr>
           in if balance' \<le> 0 then [st]
              else st # projectLoop plan interestRate rest (Suc yr) balance' cum'))"

definition projectLoanBalance ::
  "real \<Rightarrow> real \<Rightarrow> real list \<Rightarrow> IDRPlanParams \<Rightarrow> YearlyLoanState list" where
  "projectLoanBalance initialBalance interestRate annualPayments plan =
     projectLoop plan interestRate annualPayments 0 initialBalance 0"

text \<open>
  The unrounded balance held by the loop variable \<open>balance\<close> at each snapshot, year by
  year: the quantity the \<open>break\<close> of \<open>projectLoanBalance\<close> tests.  It is not a function
  of the source; it names the loop variable so that properties can speak about it.
\<close>

fun yearEndBalances :: "IDRPlanParams \<Rightarrow> real \<Rightarrow> real list \<Rightarrow> real \<Rightarrow> real list" where
  "yearEndBalances plan interestRate [] balance = []"
| "yearEndBalances plan interestRate (annualPayment # rest) balance =
     (let balance' = max 0 (fst (simulateYear plan interestRate annualPayment balance))
      in if balance' \<le> 0 then [balance']
         else balance' # yearEndBalances plan interestRate rest balance')"

section \<open>Tax calculations (calculations.ts)\<close>

definition getBrackets :: "FilingStatus \<Rightarrow> TaxBracket list" where
  "getBrackets filingStatus =
     (case filingStatus of
        MFJ \<Rightarrow> FEDERAL_BRACKETS_MFJ
      | MFS \<Rightarrow> FEDERAL_BRACKETS_MFS
      | Single \<Rightarrow> FEDERAL_BRACKETS_SINGLE)"

text \<open>
  The bracket loop runs from the last bracket down to the first; \<open>taxLoop\<close> takes the
  brackets in the order visited, with the running \<open>tax\<close> and \<open>remainingIncome\<close>.
\<close>

fun taxLoop :: "TaxBracket list \<Rightarrow> real \<Rightarrow> real \<Rightarrow> real" where
  "taxLoop [] tax remainingIncome = tax"
| "taxLoop (bracket # rest) tax remainingIncome =
     (if remainingIncome > threshold bracket
      then taxLoop rest (tax + (remainingIncome - threshold bracket) * rate bracket)
             (threshold bracket)
      else taxLoop rest tax remainingIncome)"

definition calculateFederalTax :: "real \<Rightarrow> FilingStatus \<Rightarrow> real" where
  "calculateFederalTax taxableIncome filingStatus =
     Math_round (taxLoop (rev (getBrackets filingStatus)) 0 taxableIncome)"

definition estimateTaxOnForgiveness :: "real \<Rightarrow> real \<Rightarrow> string \<Rightarrow> FilingStatus \<Rightarrow> real" where
  "estimateTaxOnForgiveness forgivenAmount agiInForgivenessYear state filingStatus =
     (if forgivenAmount \<le> 0 then 0
      else
        (let taxWithoutForgiveness = calculateFederalTax agiInForgivenessYear filingStatus;
             taxWithForgiveness =
               calculateFederalTax (agiInForgivenessYear + forgivenAmount) filingStatus;
             federalTax = taxWithForgiveness - taxWithoutForgiveness;
             stateRate = or_default (STATE_TAX_RATES state) 0.05;
             stateTax = forgivenAmount * stateRate
         in Math_round (federalTax + stateTax)))"

section \<open>Filing status comparison (calculations.ts)\<close>

definition compareFilingStatus ::
  "real \<Rightarrow> real \<Rightarrow> real \<Rightarrow> IDRPlanParams \<Rightarrow> real \<Rightarrow> real \<Rightarrow> FilingComparison" where
  "compareFilingStatus borrowerAgi spouseAgi familySize plan loanBalance interestRate =
     (let mfjPayment = calculateIDRPayment plan borrowerAgi familySize spouseAgi MFJ;
          mfjEffective = getEffectiveIDRPayment plan mfjPayment loanBalance interestRate;
          mfjTax = calculateFederalTax (borrowerAgi + spouseAgi) MFJ;
          mfsPayment = calculateIDRPayment plan borrowerAgi familySize 0 MFS;
          mfsEffective = getEffectiveIDRPayment plan mfsPayment loanBalance interestRate;
          mfsBorrowerTax = calculateFederalTax borrowerAgi MFS;
          mfsSpouseTax = calculateFederalTax spouseAgi MFS;
          mfsTotalTax = mfsBorrowerTax + mfsSpouseTax;
          mfjNetCost = mfjEffective * 12 + mfjTax;
          mfsNetCost = mfsEffective * 12 + mfsTotalTax
      in \<lparr> mfj = \<lparr> totalTax = mfjTax, loanPayment = mfjEffective * 12,
                     netAnnualCost = mfjNetCost \<rparr>,
           mfs = \<lparr> totalTax = mfsTotalTax, loanPayment = mfsEffective * 12,
                     netAnnualCost = mfsNetCost \<rparr>,
           recommendation = (if mfjNetCost \<le> mfsNetCost then MFJ else MFS),
           annualSavings = \<bar>mfjNetCost - mfsNetCost\<bar> \<rparr>)"

section \<open>Net present value (calculations.ts)\<close>

text \<open>
  The discounting loop, with its index \<open>yr\<close> and accumulator \<open>npv\<close>.  The exponents are
  whole numbers; \<open>forgivenessYear\<close> is an integer at every call of the engine.  At a
  discount rate of \<open>-1\<close> the source divides by zero: \<open>calculateNPV\<close> is the function
  for every other discount rate, and \<open>calculateNPV_js\<close> below is the function for all of
  them.
\<close>

fun npvLoop :: "real list \<Rightarrow> nat \<Rightarrow> real \<Rightarrow> real \<Rightarrow> real" where
  "npvLoop [] yr discountRate npv = npv"
| "npvLoop (payment # rest) yr discountRate npv =
     npvLoop rest (Suc yr) discountRate (npv + payment / (1 + discountRate) ^ (yr + 1))"

definition calculateNPV :: "real list \<Rightarrow> int \<Rightarrow> real \<Rightarrow> real \<Rightarrow> real" where
  "calculateNPV annualPayments forgivenessYear taxOnForgiveness discountRate =
     (let npv = npvLoop annualPayments 0 discountRate 0;
          npv' = (if taxOnForgiveness > 0 \<and> forgivenessYear > 0
                  then npv + taxOnForgiveness / (1 + discountRate) ^ nat forgivenessYear
                  else npv)
      in Math_round npv')"



section \<open>Amortization for refinance (calculations.ts)\<close>


section \<open>Numeric-string sanitizer (utils.ts)\<close>

text \<open>
  Strings are lists of 8-bit characters.  \<open>parseFloat\<close> and \<open>String.prototype.trim\<close> are
  built-ins of the language; they are modelled after ECMA-262.  The white space of the
  language that fits into a character: tab, line feed, vertical tab, form feed, carriage
  return, space and no-break space.
\<close>

definition isWhiteSpace :: "char \<Rightarrow> bool" where
  "isWhiteSpace c \<longleftrightarrow> (of_char c :: nat) \<in> {9, 10, 11, 12, 13, 32, 160}"

definition isDigit :: "char \<Rightarrow> bool" where
  "isDigit c \<longleftrightarrow> 48 \<le> (of_char c :: nat) \<and> (of_char c :: nat) \<le> 57"

definition trimStart :: "string \<Rightarrow> string" where
  "trimStart s = dropWhile isWhiteSpace s"

definition trim :: "string \<Rightarrow> string" where
  "trim s = rev (trimStart (rev (trimStart s)))"

text \<open>The value of a run of decimal digits, and of a run of digits after the point.\<close>

definition digitsValue :: "string \<Rightarrow> nat" where
  "digitsValue ds = foldl (\<lambda>n c. 10 * n + (of_char c - 48)) 0 ds"

definition fractionValue :: "string \<Rightarrow> real" where
  "fractionValue ds = real (digitsValue ds) / 10 ^ length ds"

text \<open>An optional sign: the factor it stands for and the rest of the string.\<close>

fun takeSign :: "string \<Rightarrow> int \<times> string" where
  "takeSign [] = (1, [])"
| "takeSign (c # cs) =
     (if c = CHR ''-'' then (- 1, cs) else if c = CHR ''+'' then (1, cs) else (1, c # cs))"

text \<open>
  The exponent part \<open>e\<close> or \<open>E\<close>, an optional sign and at least one digit; a string that
  does not start with a complete exponent part has the exponent 0.
\<close>

fun exponentPart :: "string \<Rightarrow> int" where
  "exponentPart [] = 0"
| "exponentPart (c # cs) =
     (if c = CHR ''e'' \<or> c = CHR ''E''
      then (case takeSign cs of (sg, rest) \<Rightarrow>
              (let ds = takeWhile isDigit rest
               in if ds = [] then 0 else sg * int (digitsValue ds)))
      else 0)"

definition scale10 :: "real \<Rightarrow> int \<Rightarrow> real" where
  "scale10 x e = (if 0 \<le> e then x * 10 ^ nat e else x / 10 ^ nat (- e))"

text \<open>
  \<open>parseFloat\<close>: leading white space is skipped, then the longest prefix that is a
  \<open>StrDecimalLiteral\<close> is read: a sign, then either \<open>Infinity\<close> or digits with an
  optional point, fraction digits and exponent part, at least one digit being required
  before the exponent.  Without such a prefix the result is \<open>NaN\<close>.
\<close>

definition parseFloat :: "string \<Rightarrow> JSNumber" where
  "parseFloat s =
     (case takeSign (trimStart s) of (sg, body) \<Rightarrow>
        if take 8 body = ''Infinity'' then (if sg < 0 then NegInfinity else PosInfinity)
        else
          (let ip = takeWhile isDigit body;
               afterInt = dropWhile isDigit body;
               hasPoint = (afterInt \<noteq> [] \<and> hd afterInt = CHR ''.'');
               fp = (if hasPoint then takeWhile isDigit (tl afterInt) else []);
               afterFrac = (if hasPoint then dropWhile isDigit (tl afterInt) else afterInt)
           in if ip = [] \<and> fp = [] then NaN
              else Finite (scale10 (real_of_int sg * (real (digitsValue ip) + fractionValue fp))
                             (exponentPart afterFrac))))"

text \<open>\<open>parseFloat(value.replace(/,/g, '').trim()) || 0\<close>: \<open>NaN\<close> and zero become 0.\<close>

definition sanitizeNumericValue :: "string \<Rightarrow> JSNumber" where
  "sanitizeNumericValue v =
     (case parseFloat (trim (filter (\<lambda>c. c \<noteq> CHR '','') v)) of
        NaN \<Rightarrow> Finite 0
      | Finite x \<Rightarrow> (if x = 0 then Finite 0 else Finite x)
      | PosInfinity \<Rightarrow> PosInfinity
      | NegInfinity \<Rightarrow> NegInfinity)"

section \<open>Inputs and results (types.ts)\<close>

datatype LoanType = direct_unsub | direct_sub | direct_plus | ffel | perkins


datatype RiskTolerance = RiskLow | RiskMedium | RiskHigh


record PersonalInfo =
  agi :: real
  spouseAgi :: real
  filingStatus :: FilingStatus
  familySize :: real
  state :: string
  pslfEligibleEmployer :: bool






text \<open>
  \<open>Math.min\<close> and \<open>Math.max\<close> of no arguments are the two infinities, so the payment
  range of a strategy without payments is kept as a \<open>JSNumber\<close>.
\<close>

record PaymentRange =
  range_min :: JSNumber
  range_max :: JSNumber

text \<open>
  The result of one strategy.  The fields \<open>description\<close>, \<open>risks\<close> and \<open>benefits\<close> hold
  text for the presentation layer, computed from nothing but the plan name and the
  stated PSLF confidence; no number of the result and no step of the comparison reads
  them, and the model leaves them out.
\<close>

record StrategyResult =
  strategyName :: string
  totalPayments :: real
  forgivenessAmount :: real
  taxOnForgiveness :: real
  npv :: JSNumber
  totalYears :: real
  monthlyPaymentRange :: PaymentRange
  yearlyBreakdown :: "YearlyLoanState list"


section \<open>Reference data, continued (constants.ts, specialties.ts)\<close>








section \<open>Income projection (calculations.ts)\<close>







section \<open>Strategy calculators (strategies.ts)\<close>












section \<open>Comparison of all strategies (strategies.ts)\<close>






section \<open>Auxiliary notions for the properties\<close>




section \<open>Properties\<close>

subsection \<open>Rounding\<close>

lemma Math_round_mono: "x \<le> y \<Longrightarrow> Math_round x \<le> Math_round y"
  unfolding Math_round_def by (simp add: floor_mono)

lemma Math_round_add_int: "Math_round (of_int n + x) = of_int n + Math_round x"
  unfolding Math_round_def by (simp add: add.assoc)

lemma Math_round_step: "x + 1 \<le> y \<Longrightarrow> Math_round x + 1 \<le> Math_round y"
proof -
  assume h: "x + 1 \<le> y"
  have "Math_round (x + 1) \<le> Math_round y"
    using h by (rule Math_round_mono)
  moreover have "Math_round (x + 1) = Math_round x + 1"
    using Math_round_add_int [of 1 x] by (simp add: add.commute)
  ultimately show ?thesis by simp
qed

lemma Math_round_nonneg: "0 \<le> x \<Longrightarrow> 0 \<le> Math_round x"
  unfolding Math_round_def by simp

lemma Math_round_0 [simp]: "Math_round 0 = 0"
  unfolding Math_round_def by simp

subsection \<open>The IDR payment formula\<close>

lemma IDR_PLANS_cases:
  assumes "IDR_PLANS n = Some plan"
  shows "plan = SAVE_plan \<or> plan = PAYE_plan \<or> plan = IBR_NEW_plan
         \<or> plan = IBR_OLD_plan \<or> plan = ICR_plan"
proof -
  from assms have "(n, plan) \<in> set IDR_PLANS_table"
    unfolding IDR_PLANS_def by (rule map_of_SomeD)
  then show ?thesis
    unfolding IDR_PLANS_table_def by auto
qed

lemma IDR_PLANS_nonneg:
  assumes "IDR_PLANS n = Some plan"
  shows "0 \<le> povertyLineMultiplier plan \<and> 0 \<le> discretionaryIncomePercent plan"
  using IDR_PLANS_cases [OF assms]
  by (auto simp: SAVE_plan_def PAYE_plan_def IBR_NEW_plan_def IBR_OLD_plan_def ICR_plan_def)

lemma getPovertyLine_mono: "f1 \<le> f2 \<Longrightarrow> getPovertyLine f1 \<le> getPovertyLine f2"
  unfolding getPovertyLine_def POVERTY_LINE_PER_PERSON_def
  by (simp add: max.coboundedI2)

lemma calculateIDRPayment_antimono:
  assumes m: "0 \<le> povertyLineMultiplier plan"
    and p: "0 \<le> discretionaryIncomePercent plan"
    and f: "f1 \<le> f2"
  shows "calculateIDRPayment plan g f2 sp fs
         \<le> calculateIDRPayment plan g f1 sp fs"
proof -
  define inc where "inc = (if fs = MFS then g else g + sp)"
  have "getPovertyLine f1 * povertyLineMultiplier plan
        \<le> getPovertyLine f2 * povertyLineMultiplier plan"
    using getPovertyLine_mono [OF f] m by (rule mult_right_mono)
  then have "max 0 (inc - getPovertyLine f2 * povertyLineMultiplier plan)
             \<le> max 0 (inc - getPovertyLine f1 * povertyLineMultiplier plan)"
    by simp
  then have "max 0 (inc - getPovertyLine f2 * povertyLineMultiplier plan)
               * discretionaryIncomePercent plan / 12
             \<le> max 0 (inc - getPovertyLine f1 * povertyLineMultiplier plan)
               * discretionaryIncomePercent plan / 12"
    using p by (simp add: mult_right_mono divide_right_mono)
  then have "Math_round (max 0 (inc - getPovertyLine f2 * povertyLineMultiplier plan)
               * discretionaryIncomePercent plan / 12)
             \<le> Math_round (max 0 (inc - getPovertyLine f1 * povertyLineMultiplier plan)
               * discretionaryIncomePercent plan / 12)"
    by (rule Math_round_mono)
  then show ?thesis
    unfolding calculateIDRPayment_def Let_def inc_def by simp
qed

text \<open>
  C4.  For every plan, filing status, family size of at least one, AGI and spouse AGI,
  \<open>calculateIDRPayment\<close> is
  \<open>max(0, round(max(0, income - (15060 + (familySize - 1) * 5380) * multiplier) * percent / 12))\<close>,
  the income being the borrower's AGI alone under \<open>mfs\<close> and the sum of both AGIs
  otherwise; for PAYE with an AGI of 65000, a family of one, no spouse income and single
  filing the monthly payment is 353.
\<close>

theorem calculateIDRPayment_formula:
  assumes "1 \<le> fam"
  shows "calculateIDRPayment plan g fam sp fs
         = max 0 (Math_round
             (max 0 ((if fs = MFS then g else g + sp)
                      - (15060 + (fam - 1) * 5380) * povertyLineMultiplier plan)
              * discretionaryIncomePercent plan / 12))
         \<and> calculateIDRPayment PAYE_plan 65000 1 0 Single = 353"
proof
  show "calculateIDRPayment plan g fam sp fs
         = max 0 (Math_round
             (max 0 ((if fs = MFS then g else g + sp)
                      - (15060 + (fam - 1) * 5380) * povertyLineMultiplier plan)
              * discretionaryIncomePercent plan / 12))"
    using assms
    unfolding calculateIDRPayment_def Let_def getPovertyLine_def POVERTY_LINE_BASE_def
      POVERTY_LINE_PER_PERSON_def
    by (simp add: max_def)
  show "calculateIDRPayment PAYE_plan 65000 1 0 Single = 353"
    unfolding calculateIDRPayment_def Let_def getPovertyLine_def POVERTY_LINE_BASE_def
      POVERTY_LINE_PER_PERSON_def PAYE_plan_def Math_round_def
    by simp
qed

theorem calculateIDRPayment_formula_witness:
  "(1::real) \<le> 4 \<and> calculateIDRPayment ICR_plan 50000 4 30000 MFJ = 813"
proof -
  have h: "(1::real) \<le> 4" by simp
  have "calculateIDRPayment ICR_plan 50000 4 30000 MFJ
        = max 0 (Math_round
             (max 0 ((if MFJ = MFS then 50000 else 50000 + 30000)
                      - (15060 + (4 - 1) * 5380) * povertyLineMultiplier ICR_plan)
              * discretionaryIncomePercent ICR_plan / 12))"
    using calculateIDRPayment_formula [OF h, of ICR_plan 50000 30000 MFJ] by (rule conjunct1)
  then show ?thesis
    by (simp add: ICR_plan_def Math_round_def)
qed

text \<open>
  C7.  For every plan of the table and fixed AGI, spouse AGI and filing status,
  \<open>calculateIDRPayment\<close> is monotonically non-increasing in the family size.
\<close>

theorem calculateIDRPayment_familySize_mono:
  assumes "IDR_PLANS n = Some plan" and "f1 \<le> f2"
  shows "calculateIDRPayment plan g f2 sp fs
         \<le> calculateIDRPayment plan g f1 sp fs"
  using IDR_PLANS_nonneg [OF assms(1)] assms(2)
  by (simp add: calculateIDRPayment_antimono)

theorem calculateIDRPayment_familySize_mono_witness:
  "IDR_PLANS ''PAYE'' = Some PAYE_plan \<and> (1::real) \<le> 4
   \<and> calculateIDRPayment PAYE_plan 65000 4 0 Single = 152
   \<and> calculateIDRPayment PAYE_plan 65000 1 0 Single = 353
   \<and> calculateIDRPayment PAYE_plan 65000 4 0 Single
       \<le> calculateIDRPayment PAYE_plan 65000 1 0 Single"
proof -
  have a: "IDR_PLANS ''PAYE'' = Some PAYE_plan"
    by (simp add: IDR_PLANS_def IDR_PLANS_table_def)
  have b: "(1::real) \<le> 4" by simp
  have c: "calculateIDRPayment PAYE_plan 65000 4 0 Single = 152"
    unfolding calculateIDRPayment_def Let_def getPovertyLine_def POVERTY_LINE_BASE_def
      POVERTY_LINE_PER_PERSON_def PAYE_plan_def Math_round_def
    by simp
  have d: "calculateIDRPayment PAYE_plan 65000 1 0 Single = 353"
    unfolding calculateIDRPayment_def Let_def getPovertyLine_def POVERTY_LINE_BASE_def
      POVERTY_LINE_PER_PERSON_def PAYE_plan_def Math_round_def
    by simp
  show ?thesis
    using a b c d calculateIDRPayment_familySize_mono [OF a b, of 65000 0 Single]
    by simp
qed

subsection \<open>Spouse income and the filing status\<close>

lemma calculateIDRPayment_mfj_mono:
  assumes p: "0 \<le> discretionaryIncomePercent plan" and s: "s1 \<le> s2"
  shows "calculateIDRPayment plan g f s1 MFJ \<le> calculateIDRPayment plan g f s2 MFJ"
proof -
  define T where "T = getPovertyLine f * povertyLineMultiplier plan"
  have "max 0 (g + s1 - T) \<le> max 0 (g + s2 - T)"
    using s by simp
  then have "max 0 (g + s1 - T) * discretionaryIncomePercent plan / 12
             \<le> max 0 (g + s2 - T) * discretionaryIncomePercent plan / 12"
    using p by (simp add: mult_right_mono divide_right_mono)
  then have "Math_round (max 0 (g + s1 - T) * discretionaryIncomePercent plan / 12)
             \<le> Math_round (max 0 (g + s2 - T) * discretionaryIncomePercent plan / 12)"
    by (rule Math_round_mono)
  then show ?thesis
    unfolding calculateIDRPayment_def Let_def T_def by simp
qed

lemma calculateIDRPayment_mfj_strict:
  assumes t: "getPovertyLine f * povertyLineMultiplier plan \<le> g + s1"
    and s: "s1 \<le> s2"
    and d: "12 \<le> (s2 - s1) * discretionaryIncomePercent plan"
  shows "calculateIDRPayment plan g f s1 MFJ < calculateIDRPayment plan g f s2 MFJ"
proof -
  define T where "T = getPovertyLine f * povertyLineMultiplier plan"
  define p where "p = discretionaryIncomePercent plan"
  have p0: "0 < p"
  proof (rule ccontr)
    assume "\<not> 0 < p"
    then have "p \<le> 0" by simp
    moreover have "0 \<le> s2 - s1" using s by simp
    ultimately have "(s2 - s1) * p \<le> 0" by (simp add: mult_nonneg_nonpos)
    with d show False unfolding p_def by simp
  qed
  have d1: "max 0 (g + s1 - T) = g + s1 - T" using t unfolding T_def by simp
  have d2: "max 0 (g + s2 - T) = g + s2 - T" using t s unfolding T_def by simp
  have "(g + s2 - T) * p / 12 = (g + s1 - T) * p / 12 + (s2 - s1) * p / 12"
    by (simp add: field_simps)
  moreover have "1 \<le> (s2 - s1) * p / 12" using d unfolding p_def by simp
  ultimately have "(g + s1 - T) * p / 12 + 1 \<le> (g + s2 - T) * p / 12" by simp
  then have step:
    "Math_round ((g + s1 - T) * p / 12) + 1 \<le> Math_round ((g + s2 - T) * p / 12)"
    by (rule Math_round_step)
  have "0 \<le> (g + s1 - T) * p / 12" using t p0 unfolding T_def by simp
  then have "0 \<le> Math_round ((g + s1 - T) * p / 12)" by (rule Math_round_nonneg)
  with step show ?thesis
    unfolding calculateIDRPayment_def Let_def using d1 d2 unfolding T_def p_def by simp
qed

text \<open>
  C3, as the claim states it, fails: under \<open>mfj\<close> with a positive spouse income, a change
  of the spouse income need not change the payment.  With PAYE, a borrower AGI of 20000 and
  a family of one, spouse incomes of 1000 and 2000 both leave the combined income below
  the poverty threshold of 22590, and both payments are 0.
\<close>

theorem calculateIDRPayment_mfj_spouse_counterexample:
  "(0::real) < 1000 \<and> (0::real) < 2000 \<and> (1000::real) \<noteq> 2000
   \<and> calculateIDRPayment PAYE_plan 20000 1 1000 MFJ
       = calculateIDRPayment PAYE_plan 20000 1 2000 MFJ"
  unfolding calculateIDRPayment_def Let_def getPovertyLine_def POVERTY_LINE_BASE_def
    POVERTY_LINE_PER_PERSON_def PAYE_plan_def Math_round_def
  by simp

text \<open>
  C3, amended.  Under \<open>mfs\<close> the payment is unchanged by any change of the spouse AGI.
  Under \<open>mfj\<close> the payment is computed from the combined income: for a plan with a
  non-negative discretionary-income percent it never decreases when the spouse AGI
  increases, and it strictly increases when the combined income already reaches the plan's
  poverty threshold and the increase of the spouse AGI times the percent is at least 12
  (one unit of monthly payment).
\<close>

theorem calculateIDRPayment_spouse_dependence:
  "calculateIDRPayment plan g f s1 MFS = calculateIDRPayment plan g f s2 MFS
   \<and> (0 \<le> discretionaryIncomePercent plan \<longrightarrow> s1 \<le> s2 \<longrightarrow>
        calculateIDRPayment plan g f s1 MFJ \<le> calculateIDRPayment plan g f s2 MFJ)
   \<and> (getPovertyLine f * povertyLineMultiplier plan \<le> g + s1 \<longrightarrow> s1 \<le> s2 \<longrightarrow>
        12 \<le> (s2 - s1) * discretionaryIncomePercent plan \<longrightarrow>
        calculateIDRPayment plan g f s1 MFJ < calculateIDRPayment plan g f s2 MFJ)"
proof (intro conjI impI)
  show "calculateIDRPayment plan g f s1 MFS = calculateIDRPayment plan g f s2 MFS"
    unfolding calculateIDRPayment_def by simp
next
  assume "0 \<le> discretionaryIncomePercent plan" and "s1 \<le> s2"
  then show "calculateIDRPayment plan g f s1 MFJ \<le> calculateIDRPayment plan g f s2 MFJ"
    by (rule calculateIDRPayment_mfj_mono)
next
  assume "getPovertyLine f * povertyLineMultiplier plan \<le> g + s1" and "s1 \<le> s2"
    and "12 \<le> (s2 - s1) * discretionaryIncomePercent plan"
  then show "calculateIDRPayment plan g f s1 MFJ < calculateIDRPayment plan g f s2 MFJ"
    by (rule calculateIDRPayment_mfj_strict)
qed

theorem calculateIDRPayment_spouse_dependence_witness:
  "(0::real) \<le> discretionaryIncomePercent PAYE_plan \<and> (10000::real) \<le> 40000
   \<and> getPovertyLine 1 * povertyLineMultiplier PAYE_plan \<le> 65000 + 10000
   \<and> 12 \<le> (40000 - 10000) * discretionaryIncomePercent PAYE_plan
   \<and> calculateIDRPayment PAYE_plan 65000 1 10000 MFJ
       < calculateIDRPayment PAYE_plan 65000 1 40000 MFJ
   \<and> calculateIDRPayment PAYE_plan 65000 1 10000 MFS
       = calculateIDRPayment PAYE_plan 65000 1 40000 MFS"
proof -
  have a: "(0::real) \<le> discretionaryIncomePercent PAYE_plan"
    by (simp add: PAYE_plan_def)
  have b: "(10000::real) \<le> 40000" by simp
  have c: "getPovertyLine 1 * povertyLineMultiplier PAYE_plan \<le> 65000 + 10000"
    by (simp add: getPovertyLine_def POVERTY_LINE_BASE_def PAYE_plan_def)
  have d: "12 \<le> (40000 - 10000) * discretionaryIncomePercent PAYE_plan"
    by (simp add: PAYE_plan_def)
  show ?thesis
    using a b c d calculateIDRPayment_spouse_dependence [of PAYE_plan 65000 1 10000 40000]
    by simp
qed

subsection \<open>Tax on forgiveness\<close>

lemma Math_round_ge1: "1 / 2 \<le> x \<Longrightarrow> 1 \<le> Math_round x"
proof -
  assume "1 / 2 \<le> x"
  then have "(1::int) \<le> \<lfloor>x + 1 / 2\<rfloor>" by (simp add: le_floor_iff)
  then show ?thesis unfolding Math_round_def by linarith
qed

lemma calculateFederalTax_int: "\<exists>k. calculateFederalTax x fs = of_int k"
  unfolding calculateFederalTax_def Math_round_def by blast

lemma STATE_TAX_RATES_nonneg: "STATE_TAX_RATES s = Some r \<Longrightarrow> 0 \<le> r"
proof -
  assume "STATE_TAX_RATES s = Some r"
  then have "(s, r) \<in> set STATE_TAX_RATES_table"
    unfolding STATE_TAX_RATES_def by (rule map_of_SomeD)
  then show ?thesis
    unfolding STATE_TAX_RATES_table_def by auto
qed

lemma estimateTaxOnForgiveness_listed:
  assumes a: "0 < amt" and s: "STATE_TAX_RATES sta = Some r" and r: "r \<noteq> 0"
  shows "estimateTaxOnForgiveness amt g sta fs
         = (calculateFederalTax (g + amt) fs - calculateFederalTax g fs)
           + Math_round (amt * r)"
proof -
  obtain k1 where k1: "calculateFederalTax (g + amt) fs = of_int k1"
    using calculateFederalTax_int by blast
  obtain k2 where k2: "calculateFederalTax g fs = of_int k2"
    using calculateFederalTax_int by blast
  have "estimateTaxOnForgiveness amt g sta fs = Math_round (of_int (k1 - k2) + amt * r)"
    using a s r unfolding estimateTaxOnForgiveness_def Let_def or_default_def k1 k2
    by simp
  also have "\<dots> = of_int (k1 - k2) + Math_round (amt * r)"
    by (rule Math_round_add_int)
  finally show ?thesis unfolding k1 k2 by simp
qed

text \<open>
  The table lists Texas with the rate 0 and Arizona with 0.025, yet \<open>0 || 0.05\<close> is 0.05:
  a listed rate of zero is replaced by the default for unknown states, so the estimate
  for Texas exceeds the estimate for Arizona.
\<close>

lemma estimateTaxOnForgiveness_zero_rate_state:
  "STATE_TAX_RATES ''AZ'' = Some 0.025 \<and> STATE_TAX_RATES ''TX'' = Some 0
   \<and> estimateTaxOnForgiveness 100000 300000 ''AZ'' Single = 37500
   \<and> estimateTaxOnForgiveness 100000 300000 ''TX'' Single = 40000"
  by (simp add: estimateTaxOnForgiveness_def calculateFederalTax_def getBrackets_def
    FEDERAL_BRACKETS_SINGLE_def STATE_TAX_RATES_def STATE_TAX_RATES_table_def
    or_default_def Math_round_def)

text \<open>
  C2, as the claim states it, fails already through the rounding of the result: for a
  forgiven amount of 1 on an income of 0, California (listed rate 0.133) and Texas (listed
  rate 0) both give a tax of 0, so the tax of the state with the nonzero rate is not
  strictly greater.
\<close>

theorem estimateTaxOnForgiveness_state_counterexample:
  "(0::real) < 1 \<and> STATE_TAX_RATES ''CA'' = Some 0.133 \<and> STATE_TAX_RATES ''TX'' = Some 0
   \<and> \<not> (estimateTaxOnForgiveness 1 0 ''TX'' Single
          < estimateTaxOnForgiveness 1 0 ''CA'' Single)"
  by (simp add: estimateTaxOnForgiveness_def calculateFederalTax_def getBrackets_def
    FEDERAL_BRACKETS_SINGLE_def STATE_TAX_RATES_def STATE_TAX_RATES_table_def
    or_default_def Math_round_def)

text \<open>
  C2, amended.  \<open>estimateTaxOnForgiveness\<close> returns 0 when the forgiven amount is 0.  For
  a forgiven amount above 0 and a state listed with a nonzero rate, the tax is at least
  the federal increment alone (the tax a state rate of zero yields), income, amount and
  filing status being the same, and it is strictly greater once the amount times the
  state's rate reaches 1/2.
\<close>

theorem estimateTaxOnForgiveness_state:
  "estimateTaxOnForgiveness 0 g sta fs = 0
   \<and> (0 < amt \<longrightarrow> STATE_TAX_RATES sta = Some r \<longrightarrow> r \<noteq> 0 \<longrightarrow>
        calculateFederalTax (g + amt) fs - calculateFederalTax g fs
          \<le> estimateTaxOnForgiveness amt g sta fs
        \<and> (1 / 2 \<le> amt * r \<longrightarrow>
             calculateFederalTax (g + amt) fs - calculateFederalTax g fs
               < estimateTaxOnForgiveness amt g sta fs))"
proof (intro conjI impI)
  show "estimateTaxOnForgiveness 0 g sta fs = 0"
    unfolding estimateTaxOnForgiveness_def by simp
next
  assume a: "0 < amt" and s: "STATE_TAX_RATES sta = Some r" and r: "r \<noteq> 0"
  have "0 \<le> amt * r" using a STATE_TAX_RATES_nonneg [OF s] by simp
  then have "0 \<le> Math_round (amt * r)" by (rule Math_round_nonneg)
  then show "calculateFederalTax (g + amt) fs - calculateFederalTax g fs
          \<le> estimateTaxOnForgiveness amt g sta fs"
    unfolding estimateTaxOnForgiveness_listed [OF a s r] by simp
next
  assume a: "0 < amt" and s: "STATE_TAX_RATES sta = Some r" and r: "r \<noteq> 0"
    and h: "1 / 2 \<le> amt * r"
  have "1 \<le> Math_round (amt * r)" using h by (rule Math_round_ge1)
  then show "calculateFederalTax (g + amt) fs - calculateFederalTax g fs
          < estimateTaxOnForgiveness amt g sta fs"
    unfolding estimateTaxOnForgiveness_listed [OF a s r] by simp
qed

theorem estimateTaxOnForgiveness_state_witness:
  "(0::real) < 100000 \<and> STATE_TAX_RATES ''CA'' = Some 0.133 \<and> (0.133::real) \<noteq> 0
   \<and> (1::real) / 2 \<le> 100000 * 0.133
   \<and> calculateFederalTax (300000 + 100000) Single - calculateFederalTax 300000 Single
       < estimateTaxOnForgiveness 100000 300000 ''CA'' Single"
proof -
  have s: "STATE_TAX_RATES ''CA'' = Some 0.133"
    by (simp add: STATE_TAX_RATES_def STATE_TAX_RATES_table_def)
  show ?thesis
    using s estimateTaxOnForgiveness_state [of 300000 "''CA''" Single 100000 "0.133"]
    by simp
qed

subsection \<open>Filing status comparison\<close>

text \<open>
  C9.  \<open>compareFilingStatus\<close> recommends \<open>mfj\<close> exactly when the MFJ net annual cost
  (12 times the effective MFJ payment plus the MFJ federal tax) is at most the MFS net
  annual cost (12 times the effective MFS payment plus both spouses' MFS federal taxes),
  a tie going to \<open>mfj\<close>, and recommends \<open>mfs\<close> otherwise; \<open>annualSavings\<close> is the
  absolute difference of the two net annual costs.
\<close>

theorem compareFilingStatus_recommendation:
  "(recommendation (compareFilingStatus b s f plan lb ir) = MFJ
     \<longleftrightarrow> 12 * getEffectiveIDRPayment plan (calculateIDRPayment plan b f s MFJ) lb ir
              + calculateFederalTax (b + s) MFJ
           \<le> 12 * getEffectiveIDRPayment plan (calculateIDRPayment plan b f 0 MFS) lb ir
              + (calculateFederalTax b MFS + calculateFederalTax s MFS))
   \<and> (recommendation (compareFilingStatus b s f plan lb ir) = MFS
     \<longleftrightarrow> \<not> (12 * getEffectiveIDRPayment plan (calculateIDRPayment plan b f s MFJ) lb ir
              + calculateFederalTax (b + s) MFJ
           \<le> 12 * getEffectiveIDRPayment plan (calculateIDRPayment plan b f 0 MFS) lb ir
              + (calculateFederalTax b MFS + calculateFederalTax s MFS)))
   \<and> annualSavings (compareFilingStatus b s f plan lb ir)
     = \<bar>(12 * getEffectiveIDRPayment plan (calculateIDRPayment plan b f s MFJ) lb ir
              + calculateFederalTax (b + s) MFJ)
        - (12 * getEffectiveIDRPayment plan (calculateIDRPayment plan b f 0 MFS) lb ir
              + (calculateFederalTax b MFS + calculateFederalTax s MFS))\<bar>
   \<and> netAnnualCost (mfj (compareFilingStatus b s f plan lb ir))
     = 12 * getEffectiveIDRPayment plan (calculateIDRPayment plan b f s MFJ) lb ir
              + calculateFederalTax (b + s) MFJ
   \<and> netAnnualCost (mfs (compareFilingStatus b s f plan lb ir))
     = 12 * getEffectiveIDRPayment plan (calculateIDRPayment plan b f 0 MFS) lb ir
              + (calculateFederalTax b MFS + calculateFederalTax s MFS)"
  unfolding compareFilingStatus_def Let_def
  by (simp add: mult.commute)

subsection \<open>Net present value of a constant stream\<close>

lemma discount_less:
  assumes p: "0 < (p::real)" and r: "0 < (r::real)"
  shows "p / (1 + r) ^ Suc k < p"
proof -
  have "1 < 1 + r" using r by simp
  then have "1 < (1 + r) ^ Suc k" by (rule one_less_power) simp
  then show ?thesis using p by (simp add: divide_less_eq)
qed

lemma npvLoop_replicate_le:
  assumes p: "0 < p" and r: "0 < r"
  shows "npvLoop (replicate n p) yr r acc \<le> acc + real n * p"
proof (induction n arbitrary: yr acc)
  case 0
  then show ?case by simp
next
  case (Suc n)
  have "npvLoop (replicate (Suc n) p) yr r acc
        = npvLoop (replicate n p) (Suc yr) r (acc + p / (1 + r) ^ (yr + 1))"
    by simp
  also have "\<dots> \<le> (acc + p / (1 + r) ^ (yr + 1)) + real n * p"
    by (rule Suc.IH)
  also have "\<dots> \<le> acc + real (Suc n) * p"
    using discount_less [OF p r, of yr] by (simp add: algebra_simps)
  finally show ?case .
qed

lemma npvLoop_replicate_less:
  assumes p: "0 < p" and r: "0 < r" and n: "0 < n"
  shows "npvLoop (replicate n p) yr r acc < acc + real n * p"
proof -
  obtain m where m: "n = Suc m" using n by (cases n) auto
  have "npvLoop (replicate n p) yr r acc
        = npvLoop (replicate m p) (Suc yr) r (acc + p / (1 + r) ^ (yr + 1))"
    unfolding m by simp
  also have "\<dots> \<le> (acc + p / (1 + r) ^ (yr + 1)) + real m * p"
    using p r by (rule npvLoop_replicate_le)
  also have "\<dots> < acc + real n * p"
    using discount_less [OF p r, of yr] unfolding m by (simp add: algebra_simps)
  finally show ?thesis .
qed

lemma Math_round_le_half: "Math_round x \<le> x + 1 / 2"
  unfolding Math_round_def by simp

text \<open>
  C5, as the claim states it, fails: the result is rounded to a whole unit.  A single
  payment of 1 at a discount rate of 1 percent has the discounted value 0.990..., which
  \<open>calculateNPV\<close> returns as 1: not less than the undiscounted sum 1.
\<close>

theorem calculateNPV_constant_stream_counterexample:
  "(0::nat) < 1 \<and> (0::real) < 1 \<and> (0::real) < 0.01
   \<and> \<not> (calculateNPV (replicate 1 1) 0 0 0.01 < real 1 * 1)"
  by (simp add: calculateNPV_def Math_round_def)

text \<open>
  C5, amended.  For a non-empty constant stream of a positive annual payment and a
  discount rate above 0, with no forgiveness tax: the discounted sum that \<open>calculateNPV\<close>
  accumulates is strictly less than the undiscounted sum of the payments; the returned
  value, which is that sum rounded, is at most the rounded undiscounted sum, and it is
  strictly less than the undiscounted sum whenever discounting removes more than 1/2.
\<close>

theorem calculateNPV_constant_stream:
  assumes "0 < n" and "0 < p" and "0 < r"
  shows "npvLoop (replicate n p) 0 r 0 < real n * p
    \<and> calculateNPV (replicate n p) fy 0 r \<le> Math_round (real n * p)
    \<and> (1 / 2 < real n * p - npvLoop (replicate n p) 0 r 0 \<longrightarrow>
         calculateNPV (replicate n p) fy 0 r < real n * p)"
proof (intro conjI impI)
  show a: "npvLoop (replicate n p) 0 r 0 < real n * p"
    using npvLoop_replicate_less [OF assms(2) assms(3) assms(1), of 0 0] by simp
  show "calculateNPV (replicate n p) fy 0 r \<le> Math_round (real n * p)"
    unfolding calculateNPV_def Let_def using a by (simp add: Math_round_mono)
  assume "1 / 2 < real n * p - npvLoop (replicate n p) 0 r 0"
  then have "npvLoop (replicate n p) 0 r 0 + 1 / 2 < real n * p" by simp
  moreover have "Math_round (npvLoop (replicate n p) 0 r 0)
                 \<le> npvLoop (replicate n p) 0 r 0 + 1 / 2"
    by (rule Math_round_le_half)
  ultimately show "calculateNPV (replicate n p) fy 0 r < real n * p"
    unfolding calculateNPV_def Let_def by simp
qed

theorem calculateNPV_constant_stream_witness:
  "(0::nat) < 5 \<and> (0::real) < 10000 \<and> (0::real) < 0.05
   \<and> 1 / 2 < real 5 * 10000 - npvLoop (replicate 5 10000) 0 0.05 0
   \<and> calculateNPV (replicate 5 10000) 0 0 0.05 = 43295
   \<and> calculateNPV (replicate 5 10000) 0 0 0.05 < real 5 * 10000"
proof -
  have e: "replicate 5 (10000::real) = [10000, 10000, 10000, 10000, 10000]"
    by (simp add: numeral_eq_Suc)
  have h: "1 / 2 < real 5 * 10000 - npvLoop (replicate 5 10000) 0 0.05 0"
    unfolding e by simp
  have v: "calculateNPV (replicate 5 10000) 0 0 0.05 = 43295"
    unfolding e calculateNPV_def Let_def Math_round_def by simp
  show ?thesis
    using h v calculateNPV_constant_stream [of 5 10000 "0.05" 0] by simp
qed

subsection \<open>Early stop of the loan balance projection\<close>

lemma projectLoop_endingBalance:
  "map endingBalance (projectLoop plan r aps yr bal cum)
   = map Math_round (yearEndBalances plan r aps bal)"
proof (induction aps arbitrary: yr bal cum)
  case Nil
  then show ?case by simp
next
  case (Cons ap aps)
  obtain b ia isub where sy: "simulateYear plan r ap bal = (b, ia, isub)"
    by (cases "simulateYear plan r ap bal") auto
  show ?case
  proof (cases "max 0 b \<le> 0")
    case True
    then show ?thesis using sy by (simp add: Let_def)
  next
    case False
    then show ?thesis using sy Cons.IH by (simp add: Let_def)
  qed
qed

lemma yearEndBalances_butlast_pos:
  "\<forall>x \<in> set (butlast (yearEndBalances plan r aps bal)). 0 < x"
proof (induction aps arbitrary: bal)
  case Nil
  then show ?case by simp
next
  case (Cons ap aps)
  define b' where "b' = max 0 (fst (simulateYear plan r ap bal))"
  show ?case
  proof (cases "b' \<le> 0")
    case True
    then show ?thesis unfolding b'_def by (simp add: Let_def)
  next
    case False
    then have "yearEndBalances plan r (ap # aps) bal = b' # yearEndBalances plan r aps b'"
      unfolding b'_def by (simp add: Let_def)
    moreover have "0 < b'" using False by simp
    ultimately show ?thesis
      using Cons.IH [of b'] by (auto simp: butlast.simps split: if_splits)
  qed
qed

lemma yearEndBalances_length: "length (yearEndBalances plan r aps bal) \<le> length aps"
proof (induction aps arbitrary: bal)
  case Nil
  then show ?case by simp
next
  case (Cons ap aps)
  show ?case using Cons.IH by (simp add: Let_def)
qed

lemma yearEndBalances_early:
  "length (yearEndBalances plan r aps bal) < length aps
   \<Longrightarrow> yearEndBalances plan r aps bal \<noteq> [] \<and> last (yearEndBalances plan r aps bal) = 0"
proof (induction aps arbitrary: bal)
  case Nil
  then show ?case by simp
next
  case (Cons ap aps)
  define b' where "b' = max 0 (fst (simulateYear plan r ap bal))"
  show ?case
  proof (cases "b' \<le> 0")
    case True
    moreover have "0 \<le> b'" unfolding b'_def by simp
    ultimately have "b' = 0" by simp
    then show ?thesis using True unfolding b'_def by (simp add: Let_def)
  next
    case False
    then have e: "yearEndBalances plan r (ap # aps) bal = b' # yearEndBalances plan r aps b'"
      unfolding b'_def by (simp add: Let_def)
    with Cons.prems have "length (yearEndBalances plan r aps b') < length aps" by simp
    then have "yearEndBalances plan r aps b' \<noteq> []
               \<and> last (yearEndBalances plan r aps b') = 0"
      by (rule Cons.IH)
    then show ?thesis unfolding e by simp
  qed
qed

text \<open>
  C6, as the claim states it, fails: the loop stops on the unrounded balance, while the
  snapshot stores the rounded one.  With an initial balance of 1200.40, no interest and
  two annual payments of 1200, the first year ends on a balance of 0.40: its snapshot has
  \<open>endingBalance = 0\<close>, and a second snapshot follows.
\<close>

theorem projectLoanBalance_early_stop_counterexample:
  "length (projectLoanBalance 1200.4 0 [1200, 1200] PAYE_plan) = 2
   \<and> \<not> 0 < endingBalance (hd (projectLoanBalance 1200.4 0 [1200, 1200] PAYE_plan))"
  by (simp add: projectLoanBalance_def simulateYear_def monthStep_def PAYE_plan_def
    Math_round_def numeral_eq_Suc Let_def)

text \<open>
  C6, amended.  The snapshots of \<open>projectLoanBalance\<close> store the rounded year-end
  balances, and there is at most one snapshot per annual payment.  Every snapshot except
  possibly the last has an unrounded year-end balance above 0 (its stored
  \<open>endingBalance\<close> may still be 0 when that balance is below 1/2); and when fewer
  snapshots than annual payments are returned, the last one ends on the balance 0:
  emission stops at the first year whose unrounded balance reaches zero.
\<close>

theorem projectLoanBalance_early_stop:
  "length (projectLoanBalance ib r aps plan) \<le> length aps
   \<and> map endingBalance (projectLoanBalance ib r aps plan)
       = map Math_round (yearEndBalances plan r aps ib)
   \<and> (\<forall>x \<in> set (butlast (yearEndBalances plan r aps ib)). 0 < x)
   \<and> (length (projectLoanBalance ib r aps plan) < length aps \<longrightarrow>
        projectLoanBalance ib r aps plan \<noteq> []
        \<and> last (yearEndBalances plan r aps ib) = 0
        \<and> endingBalance (last (projectLoanBalance ib r aps plan)) = 0)"
proof -
  have m: "map endingBalance (projectLoanBalance ib r aps plan)
       = map Math_round (yearEndBalances plan r aps ib)"
    unfolding projectLoanBalance_def by (rule projectLoop_endingBalance)
  have l: "length (projectLoanBalance ib r aps plan)
           = length (yearEndBalances plan r aps ib)"
    using arg_cong [OF m, of length] by simp
  have a: "length (projectLoanBalance ib r aps plan) \<le> length aps"
    unfolding l by (rule yearEndBalances_length)
  have b: "\<forall>x \<in> set (butlast (yearEndBalances plan r aps ib)). 0 < x"
    by (rule yearEndBalances_butlast_pos)
  have c: "projectLoanBalance ib r aps plan \<noteq> []
        \<and> last (yearEndBalances plan r aps ib) = 0
        \<and> endingBalance (last (projectLoanBalance ib r aps plan)) = 0"
    if h: "length (projectLoanBalance ib r aps plan) < length aps"
  proof -
    from h have "length (yearEndBalances plan r aps ib) < length aps" unfolding l .
    then have y: "yearEndBalances plan r aps ib \<noteq> []
                  \<and> last (yearEndBalances plan r aps ib) = 0"
      by (rule yearEndBalances_early)
    then have ne: "projectLoanBalance ib r aps plan \<noteq> []" using l by auto
    have "endingBalance (last (projectLoanBalance ib r aps plan))
          = last (map endingBalance (projectLoanBalance ib r aps plan))"
      using ne by (simp add: last_map)
    also have "\<dots> = Math_round (last (yearEndBalances plan r aps ib))"
      unfolding m using y by (simp add: last_map)
    finally show ?thesis using y ne by simp
  qed
  show ?thesis using m a b c by blast
qed

theorem projectLoanBalance_early_stop_witness:
  "length (projectLoanBalance 1000 0 [600, 600, 600] PAYE_plan) = 2
   \<and> length (projectLoanBalance 1000 0 [600, 600, 600] PAYE_plan)
       < length [600, 600, 600::real]
   \<and> yearEndBalances PAYE_plan 0 [600, 600, 600] 1000 = [400, 0]
   \<and> map endingBalance (projectLoanBalance 1000 0 [600, 600, 600] PAYE_plan) = [400, 0]
   \<and> endingBalance (last (projectLoanBalance 1000 0 [600, 600, 600] PAYE_plan)) = 0"
proof -
  have y: "yearEndBalances PAYE_plan 0 [600, 600, 600] 1000 = [400, 0]"
    by (simp add: simulateYear_def monthStep_def PAYE_plan_def numeral_eq_Suc Let_def)
  have r: "map Math_round [400, 0] = [400, 0]"
    by (simp add: Math_round_def)
  have t: "length (projectLoanBalance 1000 0 [600, 600, 600] PAYE_plan)
             \<le> length [600, 600, 600::real]
   \<and> map endingBalance (projectLoanBalance 1000 0 [600, 600, 600] PAYE_plan)
       = map Math_round (yearEndBalances PAYE_plan 0 [600, 600, 600] 1000)
   \<and> (\<forall>x \<in> set (butlast (yearEndBalances PAYE_plan 0 [600, 600, 600] 1000)). 0 < x)
   \<and> (length (projectLoanBalance 1000 0 [600, 600, 600] PAYE_plan)
          < length [600, 600, 600::real] \<longrightarrow>
        projectLoanBalance 1000 0 [600, 600, 600] PAYE_plan \<noteq> []
        \<and> last (yearEndBalances PAYE_plan 0 [600, 600, 600] 1000) = 0
        \<and> endingBalance (last (projectLoanBalance 1000 0 [600, 600, 600] PAYE_plan)) = 0)"
    by (rule projectLoanBalance_early_stop)
  then have m: "map endingBalance (projectLoanBalance 1000 0 [600, 600, 600] PAYE_plan) = [400, 0]"
    unfolding y r by simp
  have l: "length (projectLoanBalance 1000 0 [600, 600, 600] PAYE_plan) = 2"
    using arg_cong [OF m, of length] by simp
  show ?thesis using t y m l by simp
qed

subsection \<open>The numeric-string sanitizer\<close>

lemma trimStart_white_prefix:
  "trimStart (filter isWhiteSpace w @ x) = trimStart x"
  unfolding trimStart_def by (rule dropWhile_append2) simp

lemma trim_white_suffix: "trim (x @ filter isWhiteSpace w) = trim x"
proof (cases "trimStart x = []")
  case True
  then have a: "\<forall>c \<in> set x. isWhiteSpace c"
    unfolding trimStart_def by (simp add: dropWhile_eq_Nil_conv)
  then have "trimStart (x @ filter isWhiteSpace w) = []"
    unfolding trimStart_def by (auto simp: dropWhile_eq_Nil_conv)
  then show ?thesis using True unfolding trim_def by simp
next
  case False
  then obtain c where c: "c \<in> set x" "\<not> isWhiteSpace c"
    unfolding trimStart_def by (auto simp: dropWhile_eq_Nil_conv)
  then have "trimStart (x @ filter isWhiteSpace w) = trimStart x @ filter isWhiteSpace w"
    unfolding trimStart_def by (simp add: dropWhile_append1)
  then have "rev (trimStart (x @ filter isWhiteSpace w))
             = filter isWhiteSpace (rev w) @ rev (trimStart x)"
    by (simp add: rev_filter)
  then show ?thesis
    unfolding trim_def by (simp add: trimStart_white_prefix)
qed

lemma trim_white_prefix: "trim (filter isWhiteSpace w @ x) = trim x"
  unfolding trim_def by (simp add: trimStart_white_prefix)

lemma trim_surround:
  "trim (filter isWhiteSpace w1 @ x @ filter isWhiteSpace w2) = trim x"
  using trim_white_prefix [of w1 "x @ filter isWhiteSpace w2"] trim_white_suffix [of x w2]
  by simp

lemma filter_comma_white:
  "filter (\<lambda>c. c \<noteq> CHR '','') (filter isWhiteSpace w) = filter isWhiteSpace w"
proof -
  have n: "\<not> isWhiteSpace CHR '',''" unfolding isWhiteSpace_def by simp
  show ?thesis
  proof (induction w)
    case Nil
    then show ?case by simp
  next
    case (Cons c w)
    then show ?case using n by auto
  qed
qed

text \<open>
  C8.  The sanitizer strips the thousands-separator commas and the surrounding white space
  before parsing, and returns 0 for empty or unparseable input: \<open>"250,000"\<close> gives
  250000 (where \<open>parseFloat\<close> alone stops at the comma and gives 250), \<open>""\<close> gives 0,
  \<open>"abc"\<close> gives 0 and \<open>" -1,000 "\<close> gives -1000.  In general the result does not
  depend on commas or on white space around the input, it is never \<open>NaN\<close>, and it is
  either 0 or what \<open>parseFloat\<close> reads from the stripped input.
\<close>

theorem sanitizeNumericValue_examples:
  "sanitizeNumericValue ''250,000'' = Finite 250000
   \<and> parseFloat ''250,000'' = Finite 250
   \<and> sanitizeNumericValue '''' = Finite 0
   \<and> sanitizeNumericValue ''abc'' = Finite 0
   \<and> sanitizeNumericValue '' -1,000 '' = Finite (- 1000)
   \<and> sanitizeNumericValue (filter (\<lambda>c. c \<noteq> CHR '','') v) = sanitizeNumericValue v
   \<and> sanitizeNumericValue (filter isWhiteSpace w1 @ v @ filter isWhiteSpace w2)
       = sanitizeNumericValue v
   \<and> sanitizeNumericValue v \<noteq> NaN
   \<and> (sanitizeNumericValue v = Finite 0
        \<or> sanitizeNumericValue v = parseFloat (trim (filter (\<lambda>c. c \<noteq> CHR '','') v)))"
proof (intro conjI)
  show "sanitizeNumericValue ''250,000'' = Finite 250000"
    by (simp add: sanitizeNumericValue_def parseFloat_def trim_def trimStart_def
      isWhiteSpace_def isDigit_def digitsValue_def fractionValue_def scale10_def)
  show "parseFloat ''250,000'' = Finite 250"
    by (simp add: parseFloat_def trimStart_def
      isWhiteSpace_def isDigit_def digitsValue_def fractionValue_def scale10_def)
  show "sanitizeNumericValue '''' = Finite 0"
    by (simp add: sanitizeNumericValue_def parseFloat_def trim_def trimStart_def)
  show "sanitizeNumericValue ''abc'' = Finite 0"
    by (simp add: sanitizeNumericValue_def parseFloat_def trim_def trimStart_def
      isWhiteSpace_def isDigit_def)
  show "sanitizeNumericValue '' -1,000 '' = Finite (- 1000)"
    by (simp add: sanitizeNumericValue_def parseFloat_def trim_def trimStart_def
      isWhiteSpace_def isDigit_def digitsValue_def fractionValue_def scale10_def)
  show "sanitizeNumericValue (filter (\<lambda>c. c \<noteq> CHR '','') v) = sanitizeNumericValue v"
    unfolding sanitizeNumericValue_def by simp
  show "sanitizeNumericValue (filter isWhiteSpace w1 @ v @ filter isWhiteSpace w2)
       = sanitizeNumericValue v"
  proof -
    have "filter (\<lambda>c. c \<noteq> CHR '','') (filter isWhiteSpace w1 @ v @ filter isWhiteSpace w2)
          = filter isWhiteSpace w1 @ filter (\<lambda>c. c \<noteq> CHR '','') v @ filter isWhiteSpace w2"
      by (simp only: filter_append filter_comma_white)
    then show ?thesis
      unfolding sanitizeNumericValue_def by (simp only: trim_surround)
  qed
  show "sanitizeNumericValue v \<noteq> NaN"
    unfolding sanitizeNumericValue_def by (simp split: JSNumber.split)
  show "sanitizeNumericValue v = Finite 0
        \<or> sanitizeNumericValue v = parseFloat (trim (filter (\<lambda>c. c \<noteq> CHR '','') v))"
    unfolding sanitizeNumericValue_def by (simp split: JSNumber.split)
qed

subsection \<open>The ranking of the strategies\<close>






























end
